theory Spec2Isabelle
  imports Complex_Main "HOL-Library.AList" "HOL-Library.Char_ord" "HOL-Library.List_Lexorder" "HOL-Library.Multiset"
begin

section \<open>Python values and exceptions\<close>

text \<open>
  The pipeline works on pandas tables read from CSV files. A numeric cell read from such a
  table is a \<^verbatim>\<open>numpy.float64\<close> scalar: its arithmetic never raises, a division by zero
  yields an infinity or NaN (with a warning only), and every comparison with NaN is false.
  \<open>np_float\<close> models these scalars with the finite values as exact rationals: the
  special values and the rules that produce them are written out, rounding and the sign of
  zero are not modelled (a zero is \<open>+0.0\<close>).
\<close>

datatype np_float = Fin rat | PInf | NInf | NaN




text \<open>A cell of a table or a value of a row dictionary: a string, an integer or a float.\<close>

datatype cell = Txt string | IntC int | Flt np_float

text \<open>The exceptions that the modelled code paths can raise.\<close>

datatype error = IndexError | KeyError | TypeError | ValueError





section \<open>The grouper (grouper/src/main.py)\<close>


type_synonym data_row = "string \<rightharpoonup> cell"













subsection \<open>Example candle tables\<close>




text \<open>The label column \<^verbatim>\<open>dataframe['is_alcista']\<close> of a result of the grouper.\<close>

definition labels :: "error + data_row list \<Rightarrow> error + cell option list" where
  "labels res = (case res of Inl e \<Rightarrow> Inl e | Inr rows \<Rightarrow> Inr (map (\<lambda>row. row ''is_alcista'') rows))"

section \<open>Tables and columns (pandas)\<close>

text \<open>
  A table is its number of rows and its columns in order, each a name with the values of the
  rows; a single column (a Series) is a list of values. The row labels of pandas are not
  modelled: every access of the code below is by position or by column name. The tables are
  polymorphic in the type of a value.
\<close>

record 'v frame =
  nrows :: nat
  cols :: "(string \<times> 'v list) list"

definition columns :: "'v frame \<Rightarrow> string list" where
  "columns df = map fst (cols df)"

text \<open>\<^verbatim>\<open>df[c]\<close>\<close>

definition get_column :: "'v frame \<Rightarrow> string \<Rightarrow> error + 'v list" where
  "get_column df c = (case map_of (cols df) c of None \<Rightarrow> Inl KeyError | Some vs \<Rightarrow> Inr vs)"

text \<open>
  \<^verbatim>\<open>df[c] = vs\<close> with one value for every row: an existing column is replaced in its place, a
  new one is added at the end.
\<close>

definition set_column :: "'v frame \<Rightarrow> string \<Rightarrow> 'v list \<Rightarrow> 'v frame" where
  "set_column df c vs = df\<lparr>cols := AList.update c vs (cols df)\<rparr>"

text \<open>\<^verbatim>\<open>df.drop(columns=cs)\<close>\<close>

definition drop_columns :: "'v frame \<Rightarrow> string list \<Rightarrow> error + 'v frame" where
  "drop_columns df cs =
     (if set cs \<subseteq> set (columns df)
      then Inr (df\<lparr>cols := filter (\<lambda>(c, vs). c \<notin> set cs) (cols df)\<rparr>)
      else Inl KeyError)"

text \<open>
  \<^verbatim>\<open>df.sort_values(by=c).reset_index(drop=True)\<close>. pandas computes the order of the rows with
  an argsort of the key column and takes every column in that order. The code does not pass
  \<^verbatim>\<open>kind\<close>, so the argsort is the library's default (\<^verbatim>\<open>quicksort\<close>), which the library
  documents as not stable. The routine is a parameter here; what the properties below need of
  it is stated where they need it.
\<close>

definition sort_values :: "('v list \<Rightarrow> nat list) \<Rightarrow> 'v frame \<Rightarrow> string \<Rightarrow> error + 'v frame" where
  "sort_values argsort df by =
     (case map_of (cols df) by of
        None \<Rightarrow> Inl KeyError
      | Some keys \<Rightarrow>
          (let order = argsort keys
           in Inr (df\<lparr>cols := map (\<lambda>(c, vs). (c, map ((!) vs) order)) (cols df)\<rparr>)))"

text \<open>
  The stop of the slice \<^verbatim>\<open>[:k]\<close> on \<open>n\<close> rows: a negative \<open>k\<close> counts from the end, and the
  bound is clipped to the rows there are. \<^verbatim>\<open>iloc[:k]\<close> keeps the rows before it,
  \<^verbatim>\<open>iloc[k:]\<close> the others.
\<close>

definition slice_bound :: "nat \<Rightarrow> int \<Rightarrow> nat" where
  "slice_bound n k = (if k < 0 then nat (int n + k) else min n (nat k))"

definition frame_head :: "'v frame \<Rightarrow> int \<Rightarrow> 'v frame" where
  "frame_head df k =
     (let b = slice_bound (nrows df) k
      in \<lparr>nrows = b, cols = map (\<lambda>(c, vs). (c, take b vs)) (cols df)\<rparr>)"

definition frame_tail :: "'v frame \<Rightarrow> int \<Rightarrow> 'v frame" where
  "frame_tail df k =
     (let b = slice_bound (nrows df) k
      in \<lparr>nrows = nrows df - b, cols = map (\<lambda>(c, vs). (c, drop b vs)) (cols df)\<rparr>)"

definition series_head :: "'v list \<Rightarrow> int \<Rightarrow> 'v list" where
  "series_head ys k = take (slice_bound (length ys) k) ys"

definition series_tail :: "'v list \<Rightarrow> int \<Rightarrow> 'v list" where
  "series_tail ys k = drop (slice_bound (length ys) k) ys"

text \<open>\<^verbatim>\<open>int(x)\<close> of a float: truncation towards zero.\<close>

definition py_int :: "rat \<Rightarrow> int" where
  "py_int x = (if 0 \<le> x then \<lfloor>x\<rfloor> else \<lceil>x\<rceil>)"

section \<open>The cleaner (limpieza/src/main.py)\<close>

text \<open>
  The attributes of a \<^verbatim>\<open>Cleaner\<close>. A method that assigns attributes returns the object after
  the call together with the exception that ended the call, if one did.
\<close>

record 'v cleaner =
  data :: "'v frame"
  x_train :: "'v frame"
  x_test :: "'v frame"
  y_train :: "'v list"
  y_test :: "'v list"
  test_size :: rat
  include_data_time :: bool

text \<open>
  \<^verbatim>\<open>Cleaner.partition_data\<close>. The parameter \<^verbatim>\<open>random_state\<close> is not used by the code. The
  size of the test split is a float in the code and an exact rational here.
\<close>

definition partition_data ::
    "('v list \<Rightarrow> nat list) \<Rightarrow> string \<Rightarrow> 'v cleaner \<Rightarrow>
     'v cleaner \<times> (error + ('v frame \<times> 'v frame \<times> 'v list \<times> 'v list))" where
  "partition_data argsort date_column s =
     (case sort_values argsort (data s) date_column of
        Inl e \<Rightarrow> (s, Inl e)
      | Inr sorted_data \<Rightarrow>
          (let s1 = s\<lparr>data := sorted_data\<rparr>
           in case get_column (data s1) ''is_alcista'' of
                Inl e \<Rightarrow> (s1, Inl e)
              | Inr y \<Rightarrow>
                  (case drop_columns (data s1) [''is_alcista''] of
                     Inl e \<Rightarrow> (s1, Inl e)
                   | Inr x \<Rightarrow>
                       (let split_index =
                              py_int (of_nat (nrows (data s1)) * (1 - test_size s1))
                        in (s1, Inr (frame_head x split_index, frame_tail x split_index,
                                     series_head y split_index, series_tail y split_index))))))"

text \<open>
  The table of \<^verbatim>\<open>Cleaner.encode_dia_semana_ordinal\<close>; the two accented letters are the
  characters 233 and 225.
\<close>

definition day_mapping :: "(string \<times> int) list" where
  "day_mapping =
     [(''Lunes'', 0),
      (''Martes'', 1),
      (''Mi'' @ [CHR 0xE9] @ ''rcoles'', 2),
      (''Jueves'', 3),
      (''Viernes'', 4),
      (''S'' @ [CHR 0xE1] @ ''bado'', 5),
      (''Domingo'', 6)]"

text \<open>
  \<^verbatim>\<open>Series.map(d)\<close> on one value: the value of the key in the dictionary, and NaN for a
  value that is not a key. The keys are strings, so a number is never a key.
\<close>

definition map_dict :: "(string \<times> int) list \<Rightarrow> cell \<Rightarrow> cell" where
  "map_dict d c =
     (case c of
        Txt s \<Rightarrow> (case map_of d s of Some n \<Rightarrow> IntC n | None \<Rightarrow> Flt NaN)
      | IntC i \<Rightarrow> Flt NaN
      | Flt x \<Rightarrow> Flt NaN)"

definition encode_dia_semana_ordinal :: "cell cleaner \<Rightarrow> cell cleaner \<times> error option" where
  "encode_dia_semana_ordinal s =
     (if ''dia_semana'' \<notin> set (columns (x_train s)) then (s, None)
      else
        (case get_column (x_train s) ''dia_semana'' of
           Inl e \<Rightarrow> (s, Some e)
         | Inr train_days \<Rightarrow>
             (let s1 = s\<lparr>x_train :=
                        set_column (x_train s) ''dia_semana'' (map (map_dict day_mapping) train_days)\<rparr>
              in case get_column (x_test s1) ''dia_semana'' of
                   Inl e \<Rightarrow> (s1, Some e)
                 | Inr test_days \<Rightarrow>
                     (s1\<lparr>x_test :=
                          set_column (x_test s1) ''dia_semana''
                            (map (map_dict day_mapping) test_days)\<rparr>, None))))"

section \<open>The class balancer (limpieza/src/balance_clases.py)\<close>

text \<open>
  \<^verbatim>\<open>y.value_counts()\<close>: every label that occurs, with the number of its occurrences. The
  order of the labels in the result plays no role below: only the smallest and the largest
  count are used.
\<close>

definition value_counts :: "'v list \<Rightarrow> ('v \<times> nat) list" where
  "value_counts ys = map (\<lambda>c. (c, count_list ys c)) (remdups ys)"

text \<open>\<^verbatim>\<open>idxmin\<close> and \<^verbatim>\<open>idxmax\<close> raise on an empty Series.\<close>

definition idxmin :: "('v \<times> nat) list \<Rightarrow> error + 'v" where
  "idxmin cs =
     (case cs of
        [] \<Rightarrow> Inl ValueError
      | p # ps \<Rightarrow> Inr (fst (foldl (\<lambda>b q. if snd q < snd b then q else b) p ps)))"

definition idxmax :: "('v \<times> nat) list \<Rightarrow> error + 'v" where
  "idxmax cs =
     (case cs of
        [] \<Rightarrow> Inl ValueError
      | p # ps \<Rightarrow> Inr (fst (foldl (\<lambda>b q. if snd b < snd q then q else b) p ps)))"

text \<open>\<^verbatim>\<open>class_counts[label]\<close>\<close>

definition count_of :: "('v \<times> nat) list \<Rightarrow> 'v \<Rightarrow> error + nat" where
  "count_of cs c = (case map_of cs c of None \<Rightarrow> Inl KeyError | Some n \<Rightarrow> Inr n)"

text \<open>
  The class analysis of \<^verbatim>\<open>apply_smote_temporal_safe\<close>: the counts of the minority and of the
  majority class.
\<close>

definition minority_majority :: "'v list \<Rightarrow> error + (nat \<times> nat)" where
  "minority_majority y =
     (let class_counts = value_counts y
      in case idxmin class_counts of
           Inl e \<Rightarrow> Inl e
         | Inr minority_class \<Rightarrow>
             (case idxmax class_counts of
                Inl e \<Rightarrow> Inl e
              | Inr majority_class \<Rightarrow>
                  (case count_of class_counts minority_class of
                     Inl e \<Rightarrow> Inl e
                   | Inr minority_count \<Rightarrow>
                       (case count_of class_counts majority_class of
                          Inl e \<Rightarrow> Inl e
                        | Inr majority_count \<Rightarrow> Inr (minority_count, majority_count)))))"

text \<open>
  \<^verbatim>\<open>BalanceadorClases.apply_smote_temporal_safe\<close> on the table \<^verbatim>\<open>self.data\<close>. The
  oversampler of the library, \<^verbatim>\<open>SMOTE(k_neighbors, sampling_strategy,
  random_state=42).fit_resample(X, y)\<close>, is the parameter \<open>smote\<close>: it returns the resampled
  features and labels or raises, and the code raises again whatever it raises. The ratios are
  floats in the code and exact rationals here.
\<close>

definition apply_smote_temporal_safe ::
    "(int \<Rightarrow> rat \<Rightarrow> 'v frame \<Rightarrow> 'v list \<Rightarrow> error + ('v frame \<times> 'v list)) \<Rightarrow>
     string \<Rightarrow> rat \<Rightarrow> int \<Rightarrow> 'v frame \<Rightarrow> error + ('v frame \<times> 'v list)" where
  "apply_smote_temporal_safe smote target_column sampling_strategy k_neighbors df =
     (case drop_columns df [target_column] of
        Inl e \<Rightarrow> Inl e
      | Inr X \<Rightarrow>
          (case get_column df target_column of
             Inl e \<Rightarrow> Inl e
           | Inr y \<Rightarrow>
               (case minority_majority y of
                  Inl e \<Rightarrow> Inl e
                | Inr (minority_count, majority_count) \<Rightarrow>
                    (let current_ratio = of_nat minority_count / of_nat majority_count;
                         max_k_neighbors = int minority_count - 1;
                         k = (if int minority_count \<le> k_neighbors
                              then max 1 max_k_neighbors else k_neighbors)
                     in if sampling_strategy \<le> current_ratio then Inr (X, y)
                        else smote k sampling_strategy X y))))"

text \<open>
  \<^verbatim>\<open>Cleaner._balance_classes\<close>. The labels are put into a copy of the training features as
  the column \<^verbatim>\<open>is_alcista\<close>; values of another length than the table raise. (pandas accepts
  them on a table without rows, which it then re-indexes; the two splits of
  \<^verbatim>\<open>partition_data\<close> always have the same length.) The comparison that the balancer logs
  afterwards only reads.
\<close>

definition balance_classes ::
    "(int \<Rightarrow> rat \<Rightarrow> 'v frame \<Rightarrow> 'v list \<Rightarrow> error + ('v frame \<times> 'v list)) \<Rightarrow>
     rat \<Rightarrow> int \<Rightarrow> 'v cleaner \<Rightarrow> 'v cleaner \<times> error option" where
  "balance_classes smote sampling_strategy k_neighbors s =
     (if length (y_train s) \<noteq> nrows (x_train s) then (s, Some ValueError)
      else
        (let temp_df = set_column (x_train s) ''is_alcista'' (y_train s)
         in case apply_smote_temporal_safe smote ''is_alcista'' sampling_strategy k_neighbors
                   temp_df of
              Inl e \<Rightarrow> (s, Some e)
            | Inr (X_balanced, y_balanced) \<Rightarrow>
                (s\<lparr>x_train := X_balanced, y_train := y_balanced\<rparr>, None)))"

section \<open>Sorting routines and example tables for the cleaner\<close>

text \<open>
  Two routines that sort ascending, for the parameter of \<open>sort_values\<close>: a stable one, as the
  specification describes the sort, which keeps rows with equal keys in their order, and one
  that reverses them. Both return a permutation of the row positions in ascending key order.
\<close>

definition stable_argsort :: "'v::linorder list \<Rightarrow> nat list" where
  "stable_argsort keys = sort_key ((!) keys) [0..<length keys]"

definition reversing_argsort :: "'v::linorder list \<Rightarrow> nat list" where
  "reversing_argsort keys = sort_key ((!) keys) (rev [0..<length keys])"


definition unsorted_cleaner :: "int cleaner" where
  "unsorted_cleaner =
     \<lparr>data = \<lparr>nrows = 5, cols = [(''date'', [3, 1, 5, 2, 4]), (''salida_vela_1'', [30, 10, 50, 20, 40]),
                                 (''is_alcista'', [1, 0, 1, 0, 0])]\<rparr>,
      x_train = \<lparr>nrows = 0, cols = []\<rparr>, x_test = \<lparr>nrows = 0, cols = []\<rparr>,
      y_train = [], y_test = [], test_size = 1 / 5, include_data_time = False\<rparr>"

section \<open>Example tables and oversamplers\<close>

text \<open>
  Pipeline states for the encoder: one where both splits have the column \<^verbatim>\<open>dia_semana\<close>,
  one where only the test split has it.
\<close>

definition day_cleaner :: "cell cleaner" where
  "day_cleaner =
     \<lparr>data = \<lparr>nrows = 0, cols = []\<rparr>,
      x_train = \<lparr>nrows = 2, cols = [(''dia_semana'', [Txt ''Lunes'', Txt ''Domingo'']),
                                   (''salida_vela_1'', [Flt (Fin 10), Flt (Fin 20)])]\<rparr>,
      x_test = \<lparr>nrows = 1, cols = [(''dia_semana'', [Txt ''Martes'']),
                                  (''salida_vela_1'', [Flt (Fin 30)])]\<rparr>,
      y_train = [IntC 0, IntC 1], y_test = [IntC 1],
      test_size = 1 / 5, include_data_time = False\<rparr>"

definition no_day_in_train_cleaner :: "cell cleaner" where
  "no_day_in_train_cleaner =
     \<lparr>data = \<lparr>nrows = 0, cols = []\<rparr>,
      x_train = \<lparr>nrows = 2, cols = [(''salida_vela_1'', [Flt (Fin 10), Flt (Fin 20)])]\<rparr>,
      x_test = \<lparr>nrows = 1, cols = [(''dia_semana'', [Txt ''Martes'']),
                                  (''salida_vela_1'', [Flt (Fin 30)])]\<rparr>,
      y_train = [IntC 0, IntC 1], y_test = [IntC 1],
      test_size = 1 / 5, include_data_time = False\<rparr>"

text \<open>
  Two stand-ins for the oversampler of the library: one that raises on every input, one that
  returns every row twice.
\<close>

definition rejecting_smote :: "int \<Rightarrow> rat \<Rightarrow> 'v frame \<Rightarrow> 'v list \<Rightarrow> error + ('v frame \<times> 'v list)" where
  "rejecting_smote k sampling_strategy X y = Inl ValueError"

definition duplicating_smote :: "int \<Rightarrow> rat \<Rightarrow> 'v frame \<Rightarrow> 'v list \<Rightarrow> error + ('v frame \<times> 'v list)" where
  "duplicating_smote k sampling_strategy X y =
     Inr (\<lparr>nrows = 2 * nrows X, cols = map (\<lambda>(c, vs). (c, vs @ vs)) (cols X)\<rparr>, y @ y)"

text \<open>
  Pipeline states for the balancer, with integer values: one row of each class; three rows of
  class 0 and one of class 1; two rows of class 0 and three of class 1.
\<close>

definition one_minority_cleaner :: "int cleaner" where
  "one_minority_cleaner =
     \<lparr>data = \<lparr>nrows = 0, cols = []\<rparr>,
      x_train = \<lparr>nrows = 2, cols = [(''salida_vela_1'', [10, 20])]\<rparr>,
      x_test = \<lparr>nrows = 1, cols = [(''salida_vela_1'', [30])]\<rparr>,
      y_train = [0, 1], y_test = [1],
      test_size = 1 / 5, include_data_time = False\<rparr>"

definition imbalanced_cleaner :: "int cleaner" where
  "imbalanced_cleaner =
     \<lparr>data = \<lparr>nrows = 0, cols = []\<rparr>,
      x_train = \<lparr>nrows = 4, cols = [(''salida_vela_1'', [10, 20, 30, 40])]\<rparr>,
      x_test = \<lparr>nrows = 1, cols = [(''salida_vela_1'', [50])]\<rparr>,
      y_train = [0, 0, 1, 0], y_test = [1],
      test_size = 1 / 5, include_data_time = False\<rparr>"

definition nearly_balanced_cleaner :: "int cleaner" where
  "nearly_balanced_cleaner =
     \<lparr>data = \<lparr>nrows = 0, cols = []\<rparr>,
      x_train = \<lparr>nrows = 5, cols = [(''salida_vela_1'', [10, 20, 30, 40, 50])]\<rparr>,
      x_test = \<lparr>nrows = 1, cols = [(''salida_vela_1'', [60])]\<rparr>,
      y_train = [0, 1, 1, 0, 1], y_test = [1],
      test_size = 1 / 5, include_data_time = False\<rparr>"


section \<open>Properties of the grouper\<close>



























section \<open>Properties of the chronological split\<close>

lemma map_of_map_values:
  "map_of (map (\<lambda>(c, vs). (c, f vs)) al) k = map_option f (map_of al k)"
  by (induction al) auto

lemma map_of_filter_keys:
  "map_of (filter (\<lambda>(c, vs). c \<noteq> x) al) k = (if k = x then None else map_of al k)"
  by (induction al) auto

lemma sorted_take_drop:
  fixes xs :: "'a::linorder list"
  assumes "sorted xs"
  shows "\<forall>a \<in> set (take n xs). \<forall>b \<in> set (drop n xs). a \<le> b"
proof -
  from assms have "sorted (take n xs @ drop n xs)" by simp
  then show ?thesis unfolding sorted_append by blast
qed

lemma stable_argsort_sorted: "sorted (map ((!) keys) (stable_argsort keys))"
  by (simp add: stable_argsort_def)



lemma reversing_argsort_perm: "mset (reversing_argsort keys) = mset [0..<length keys]"
  by (simp add: reversing_argsort_def)

lemma map_fst_map_values: "map fst (map (\<lambda>(c, vs). (c, f vs)) al) = map fst al"
  by (induction al) auto

lemma sort_values_present:
  "map_of (cols df) by = Some keys \<Longrightarrow>
   sort_values argsort df by =
     Inr (df\<lparr>cols := map (\<lambda>(c, vs). (c, map ((!) vs) (argsort keys))) (cols df)\<rparr>)"
  by (simp add: sort_values_def)

lemma get_column_mapped:
  "get_column (df\<lparr>cols := map (\<lambda>(c, vs). (c, f vs)) (cols df)\<rparr>) c =
     (case map_of (cols df) c of None \<Rightarrow> Inl KeyError | Some vs \<Rightarrow> Inr (f vs))"
  by (simp add: get_column_def map_of_map_values split: option.splits)

lemma drop_columns_present:
  "c \<in> set (columns df) \<Longrightarrow>
   drop_columns df [c] = Inr (df\<lparr>cols := filter (\<lambda>(c', vs). c' \<notin> set [c]) (cols df)\<rparr>)"
  by (simp add: drop_columns_def)

lemma columns_mapped:
  "columns (df\<lparr>cols := map (\<lambda>(c, vs). (c, f vs)) (cols df)\<rparr>) = columns df"
  by (auto simp: columns_def)

lemma in_columns_iff: "c \<in> set (columns df) \<longleftrightarrow> map_of (cols df) c \<noteq> None"
  by (simp add: columns_def map_of_eq_None_iff)

lemma partition_data_result:
  assumes keys: "map_of (cols (data s)) date_column = Some keys"
    and labels: "map_of (cols (data s)) ''is_alcista'' = Some ls"
  shows "partition_data argsort date_column s =
     (let order = argsort keys;
          sorted_data = (data s)\<lparr>cols := map (\<lambda>(c, vs). (c, map ((!) vs) order)) (cols (data s))\<rparr>;
          x = sorted_data\<lparr>cols := filter (\<lambda>(c, vs). c \<notin> set [''is_alcista'']) (cols sorted_data)\<rparr>;
          y = map ((!) ls) order;
          split_index = py_int (of_nat (nrows (data s)) * (1 - test_size s))
      in (s\<lparr>data := sorted_data\<rparr>,
          Inr (frame_head x split_index, frame_tail x split_index,
               series_head y split_index, series_tail y split_index)))"
proof -
  define sd where
    "sd = (data s)\<lparr>cols := map (\<lambda>(c, vs). (c, map ((!) vs) (argsort keys))) (cols (data s))\<rparr>"
  have sv: "sort_values argsort (data s) date_column = Inr sd"
    unfolding sd_def by (rule sort_values_present [OF keys])
  have gc: "get_column sd ''is_alcista'' = Inr (map ((!) ls) (argsort keys))"
    unfolding sd_def by (simp add: get_column_mapped labels)
  have "''is_alcista'' \<in> set (columns sd)"
    unfolding sd_def columns_mapped by (simp add: in_columns_iff labels)
  then have dc: "drop_columns sd [''is_alcista''] =
      Inr (sd\<lparr>cols := filter (\<lambda>(c', vs). c' \<notin> set [''is_alcista'']) (cols sd)\<rparr>)"
    by (rule drop_columns_present)
  have n: "nrows sd = nrows (data s)"
    by (simp add: sd_def)
  show ?thesis
    using gc dc n unfolding partition_data_def sv
    by (simp add: Let_def sd_def)
qed

lemma unsorted_partition:
  "partition_data stable_argsort ''date'' unsorted_cleaner =
     (unsorted_cleaner\<lparr>data := \<lparr>nrows = 5, cols = [(''date'', [1, 2, 3, 4, 5]),
          (''salida_vela_1'', [10, 20, 30, 40, 50]), (''is_alcista'', [0, 0, 1, 0, 1])]\<rparr>\<rparr>,
      Inr (\<lparr>nrows = 4, cols = [(''date'', [1, 2, 3, 4]), (''salida_vela_1'', [10, 20, 30, 40])]\<rparr>,
           \<lparr>nrows = 1, cols = [(''date'', [5]), (''salida_vela_1'', [50])]\<rparr>,
           [0, 0, 1, 0], [1]))"
  by code_simp

text \<open>
  Claim C3. Whatever the size of the test split, when \<^verbatim>\<open>partition_data\<close> returns, every
  date of the train split is less than or equal to every date of the test split. All that is
  needed of the library's sort is that it returns the key column in ascending order. The dates
  are values of a linear order (the code compares the strings of the CSV file).
\<close>

theorem split_non_leakage:
  fixes argsort :: "'v::linorder list \<Rightarrow> nat list"
  assumes srt: "\<forall>keys. sorted (map ((!) keys) (argsort keys))"
    and dc: "date_column \<noteq> ''is_alcista''"
    and res: "partition_data argsort date_column s = (s', Inr (train, test, ytr, yte))"
  shows "\<exists>train_dates test_dates.
           get_column train date_column = Inr train_dates \<and>
           get_column test date_column = Inr test_dates \<and>
           (\<forall>a \<in> set train_dates. \<forall>b \<in> set test_dates. a \<le> b)"
proof -
  from res obtain keys where keys: "map_of (cols (data s)) date_column = Some keys"
    by (auto simp: partition_data_def sort_values_def split: option.splits)
  from res keys obtain ls where ls: "map_of (cols (data s)) ''is_alcista'' = Some ls"
    by (auto simp: partition_data_def sort_values_def get_column_def Let_def map_of_map_values
        split: option.splits)
  define b where "b = slice_bound (nrows (data s)) (py_int (of_nat (nrows (data s)) * (1 - test_size s)))"
  define ds where "ds = map ((!) keys) (argsort keys)"
  from res have tr: "get_column train date_column = Inr (take b ds)"
    and te: "get_column test date_column = Inr (drop b ds)"
    unfolding partition_data_result [OF keys ls]
    using dc keys
    by (auto simp: Let_def frame_head_def frame_tail_def get_column_def map_of_map_values
        map_of_filter_keys b_def ds_def)
  have "sorted ds" using srt by (simp add: ds_def)
  from sorted_take_drop [OF this, of b] tr te show ?thesis by blast
qed

text \<open>Five rows out of order: the dates 1 to 4 go to the train split, 5 to the test split.\<close>

theorem split_non_leakage_witness:
  "(\<forall>keys :: int list. sorted (map ((!) keys) (stable_argsort keys))) \<and>
   (\<exists>s' train test ytr yte.
      partition_data stable_argsort ''date'' unsorted_cleaner = (s', Inr (train, test, ytr, yte)) \<and>
      get_column train ''date'' = Inr [1, 2, 3, 4] \<and>
      get_column test ''date'' = Inr [5] \<and>
      (\<forall>a \<in> set [1, 2, 3, 4 :: int]. \<forall>b \<in> set [5]. a \<le> b))"
proof -
  have h: "\<forall>keys :: int list. sorted (map ((!) keys) (stable_argsort keys))"
    by (simp add: stable_argsort_sorted)
  have d: "''date'' \<noteq> ''is_alcista''" by simp
  from split_non_leakage [OF h d unsorted_partition] h unsorted_partition
  show ?thesis
    by (simp add: get_column_def)
qed






section \<open>Properties of the day-of-week encoder\<close>

lemma get_column_set_column: "get_column (set_column df c vs) c = Inr vs"
  by (simp add: get_column_def set_column_def update_conv')

lemma columns_set_column: "set (columns (set_column df c vs)) = insert c (set (columns df))"
  by (simp add: columns_def set_column_def dom_update)

lemma get_column_in_columns: "get_column df c = Inr vs \<Longrightarrow> c \<in> set (columns df)"
  by (auto simp: get_column_def in_columns_iff split: option.splits)

lemma map_dict_twice: "map_dict d (map_dict d c) = Flt NaN"
  by (simp add: map_dict_def split: cell.splits option.splits)

lemma map_dict_unmapped:
  "c \<notin> Txt ` fst ` set d \<Longrightarrow> map_dict d c = Flt NaN"
  by (auto simp: map_dict_def map_of_eq_None_iff image_iff split: cell.splits option.splits
      dest!: map_of_SomeD)

lemma encode_present:
  assumes tr: "get_column (x_train s) ''dia_semana'' = Inr tr"
    and te: "get_column (x_test s) ''dia_semana'' = Inr te"
  shows "encode_dia_semana_ordinal s =
     (s\<lparr>x_train := set_column (x_train s) ''dia_semana'' (map (map_dict day_mapping) tr),
        x_test := set_column (x_test s) ''dia_semana'' (map (map_dict day_mapping) te)\<rparr>, None)"
  using get_column_in_columns [OF tr] tr te
  by (simp add: encode_dia_semana_ordinal_def Let_def)

text \<open>
  Claim C8 as the code has it. The encoder maps the seven day names to 0 (Lunes) through 6
  (Domingo) and every other value to NaN, the missing marker. The integers that it has written
  are not keys of the table, so it is not idempotent: a second application maps every value,
  the encoded ones too, to NaN. On the tables: when both splits have the column, the encoder
  raises nothing and replaces the column in both; after a second call the column holds only
  NaN in both.
\<close>

theorem day_encoder:
  assumes tr: "get_column (x_train s) ''dia_semana'' = Inr tr"
    and te: "get_column (x_test s) ''dia_semana'' = Inr te"
  shows "map (map_dict day_mapping)
           [Txt ''Lunes'', Txt ''Martes'', Txt (''Mi'' @ [CHR 0xE9] @ ''rcoles''), Txt ''Jueves'',
            Txt ''Viernes'', Txt (''S'' @ [CHR 0xE1] @ ''bado''), Txt ''Domingo''] =
           [IntC 0, IntC 1, IntC 2, IntC 3, IntC 4, IntC 5, IntC 6] \<and>
         (c \<notin> Txt ` fst ` set day_mapping \<longrightarrow> map_dict day_mapping c = Flt NaN) \<and>
         map_dict day_mapping (map_dict day_mapping c) = Flt NaN \<and>
         (\<exists>s1 s2. encode_dia_semana_ordinal s = (s1, None) \<and>
            get_column (x_train s1) ''dia_semana'' = Inr (map (map_dict day_mapping) tr) \<and>
            get_column (x_test s1) ''dia_semana'' = Inr (map (map_dict day_mapping) te) \<and>
            encode_dia_semana_ordinal s1 = (s2, None) \<and>
            get_column (x_train s2) ''dia_semana'' = Inr (map (\<lambda>v. Flt NaN) tr) \<and>
            get_column (x_test s2) ''dia_semana'' = Inr (map (\<lambda>v. Flt NaN) te))"
proof -
  define s1 where
    "s1 = s\<lparr>x_train := set_column (x_train s) ''dia_semana'' (map (map_dict day_mapping) tr),
            x_test := set_column (x_test s) ''dia_semana'' (map (map_dict day_mapping) te)\<rparr>"
  have e1: "encode_dia_semana_ordinal s = (s1, None)"
    unfolding s1_def by (rule encode_present [OF tr te])
  have tr1: "get_column (x_train s1) ''dia_semana'' = Inr (map (map_dict day_mapping) tr)"
    and te1: "get_column (x_test s1) ''dia_semana'' = Inr (map (map_dict day_mapping) te)"
    by (simp_all add: s1_def get_column_set_column)
  define s2 where
    "s2 = s1\<lparr>x_train := set_column (x_train s1) ''dia_semana''
                 (map (map_dict day_mapping) (map (map_dict day_mapping) tr)),
             x_test := set_column (x_test s1) ''dia_semana''
                 (map (map_dict day_mapping) (map (map_dict day_mapping) te))\<rparr>"
  have e2: "encode_dia_semana_ordinal s1 = (s2, None)"
    unfolding s2_def by (rule encode_present [OF tr1 te1])
  have tr2: "get_column (x_train s2) ''dia_semana'' = Inr (map (\<lambda>v. Flt NaN) tr)"
    and te2: "get_column (x_test s2) ''dia_semana'' = Inr (map (\<lambda>v. Flt NaN) te)"
    by (simp_all add: s2_def get_column_set_column map_dict_twice)
  have table: "map (map_dict day_mapping)
           [Txt ''Lunes'', Txt ''Martes'', Txt (''Mi'' @ [CHR 0xE9] @ ''rcoles''), Txt ''Jueves'',
            Txt ''Viernes'', Txt (''S'' @ [CHR 0xE1] @ ''bado''), Txt ''Domingo''] =
           [IntC 0, IntC 1, IntC 2, IntC 3, IntC 4, IntC 5, IntC 6]"
    by (simp add: map_dict_def day_mapping_def)
  show ?thesis
    using table map_dict_unmapped [of c day_mapping] map_dict_twice [of day_mapping c]
      e1 tr1 te1 e2 tr2 te2
    by blast
qed

text \<open>Two training rows, Lunes and Domingo: 0 and 6 after one call, NaN and NaN after two.\<close>

theorem day_encoder_witness:
  "map_dict day_mapping (Txt ''Lunes'') = IntC 0 \<and>
   map_dict day_mapping (Txt ''Domingo'') = IntC 6 \<and>
   map_dict day_mapping (Txt ''Monday'') = Flt NaN \<and>
   map_dict day_mapping (map_dict day_mapping (Txt ''Lunes'')) = Flt NaN \<and>
   (\<exists>s1 s2. encode_dia_semana_ordinal day_cleaner = (s1, None) \<and>
      get_column (x_train s1) ''dia_semana'' = Inr [IntC 0, IntC 6] \<and>
      encode_dia_semana_ordinal s1 = (s2, None) \<and>
      get_column (x_train s2) ''dia_semana'' = Inr [Flt NaN, Flt NaN])"
proof -
  have tr: "get_column (x_train day_cleaner) ''dia_semana'' = Inr [Txt ''Lunes'', Txt ''Domingo'']"
    and te: "get_column (x_test day_cleaner) ''dia_semana'' = Inr [Txt ''Martes'']"
    by (simp_all add: day_cleaner_def get_column_def)
  have u: "Txt ''Monday'' \<notin> Txt ` fst ` set day_mapping"
    by (simp add: day_mapping_def)
  from day_encoder [OF tr te, of "Txt ''Monday''"] u show ?thesis
    by (auto simp: map_dict_def day_mapping_def)
qed

text \<open>
  Claim C8 says that a second application of the encoder leaves every value unchanged. On a
  training column of Lunes and Domingo the first call gives 0 and 6, the second NaN and NaN.
\<close>

theorem encoder_idempotence_counterexample:
  "get_column (x_train (fst (encode_dia_semana_ordinal day_cleaner))) ''dia_semana'' =
     Inr [IntC 0, IntC 6] \<and>
   get_column (x_train (fst (encode_dia_semana_ordinal
       (fst (encode_dia_semana_ordinal day_cleaner))))) ''dia_semana'' =
     Inr [Flt NaN, Flt NaN]"
  by code_simp

text \<open>
  Claim C10. When the train split has no column \<^verbatim>\<open>dia_semana\<close>, the encoder returns without
  raising and leaves the whole object, so both splits, as it was; the presence of the column
  in the test split plays no role.
\<close>

theorem encoder_missing_column:
  assumes "''dia_semana'' \<notin> set (columns (x_train s))"
  shows "encode_dia_semana_ordinal s = (s, None)"
  using assms by (simp add: encode_dia_semana_ordinal_def)

text \<open>A test split that has the column, next to a train split that does not.\<close>

theorem encoder_missing_column_witness:
  "''dia_semana'' \<in> set (columns (x_test no_day_in_train_cleaner)) \<and>
   encode_dia_semana_ordinal no_day_in_train_cleaner = (no_day_in_train_cleaner, None)"
  using encoder_missing_column [of no_day_in_train_cleaner]
  by (simp add: no_day_in_train_cleaner_def columns_def)

section \<open>Properties of the class balancer\<close>

lemma foldl_least:
  fixes p :: "'a \<times> nat"
  shows "foldl (\<lambda>b q. if snd q < snd b then q else b) p ps \<in> set (p # ps) \<and>
         (\<forall>q \<in> set (p # ps). snd (foldl (\<lambda>b q. if snd q < snd b then q else b) p ps) \<le> snd q)"
proof (induction ps arbitrary: p)
  case Nil
  then show ?case by simp
next
  case (Cons a ps)
  show ?case
    using Cons.IH [of "if snd a < snd p then a else p"]
    by (auto split: if_splits)
qed

lemma foldl_greatest:
  fixes p :: "'a \<times> nat"
  shows "foldl (\<lambda>b q. if snd b < snd q then q else b) p ps \<in> set (p # ps) \<and>
         (\<forall>q \<in> set (p # ps). snd q \<le> snd (foldl (\<lambda>b q. if snd b < snd q then q else b) p ps))"
proof (induction ps arbitrary: p)
  case Nil
  then show ?case by simp
next
  case (Cons a ps)
  show ?case
    using Cons.IH [of "if snd p < snd a then a else p"]
    by (auto split: if_splits)
qed

lemma value_counts_distinct: "distinct (map fst (value_counts ys))"
  by (simp add: value_counts_def comp_def)

lemma value_counts_set: "snd ` set (value_counts ys) = count_list ys ` set ys"
  by (auto simp: value_counts_def image_iff)

lemma minority_majority_counts:
  assumes "y \<noteq> []"
  shows "minority_majority y =
     Inr (Min (count_list y ` set y), Max (count_list y ` set y))"
proof -
  define cs where "cs = value_counts y"
  from assms have "cs \<noteq> []" by (simp add: cs_def value_counts_def)
  then obtain p ps where cs: "cs = p # ps" by (cases cs) auto
  define lo where "lo = foldl (\<lambda>b q. if snd q < snd b then q else b) p ps"
  define hi where "hi = foldl (\<lambda>b q. if snd b < snd q then q else b) p ps"
  have lo: "lo \<in> set cs" "\<forall>q \<in> set cs. snd lo \<le> snd q"
    using foldl_least [of p ps] by (simp_all add: lo_def cs)
  have hi: "hi \<in> set cs" "\<forall>q \<in> set cs. snd q \<le> snd hi"
    using foldl_greatest [of p ps] by (simp_all add: hi_def cs)
  have d: "distinct (map fst cs)" by (simp add: cs_def value_counts_distinct)
  have mlo: "map_of cs (fst lo) = Some (snd lo)"
    using lo(1) d by (intro map_of_is_SomeI) simp_all
  have mhi: "map_of cs (fst hi) = Some (snd hi)"
    using hi(1) d by (intro map_of_is_SomeI) simp_all
  have img: "snd ` set cs = count_list y ` set y"
    by (simp add: cs_def value_counts_set)
  have fin: "finite (count_list y ` set y)" and ne: "count_list y ` set y \<noteq> {}"
    using assms by simp_all
  have "snd lo \<in> count_list y ` set y" using lo(1) img by blast
  moreover have "\<forall>n \<in> count_list y ` set y. snd lo \<le> n" using lo(2) img by force
  ultimately have minv: "Min (count_list y ` set y) = snd lo"
    using fin by (intro Min_eqI) auto
  have "snd hi \<in> count_list y ` set y" using hi(1) img by blast
  moreover have "\<forall>n \<in> count_list y ` set y. n \<le> snd hi" using hi(2) img by force
  ultimately have maxv: "Max (count_list y ` set y) = snd hi"
    using fin by (intro Max_eqI) auto
  have i1: "idxmin cs = Inr (fst lo)" and i2: "idxmax cs = Inr (fst hi)"
    by (simp_all add: idxmin_def idxmax_def cs lo_def hi_def)
  have c1: "count_of cs (fst lo) = Inr (snd lo)" and c2: "count_of cs (fst hi) = Inr (snd hi)"
    by (simp_all add: count_of_def mlo mhi)
  have "minority_majority y = Inr (snd lo, snd hi)"
    unfolding minority_majority_def Let_def cs_def [symmetric]
    by (simp add: i1 i2 c1 c2)
  then show ?thesis by (simp add: minv maxv)
qed

lemma filter_update_key:
  "filter (\<lambda>(c, vs). c \<noteq> k) (AList.update k v al) = filter (\<lambda>(c, vs). c \<noteq> k) al"
  by (induction al) auto

lemma filter_absent_key:
  "k \<notin> fst ` set al \<Longrightarrow> filter (\<lambda>(c, vs). c \<noteq> k) al = al"
  by (induction al) auto

lemma drop_columns_set_column:
  "c \<notin> set (columns df) \<Longrightarrow> drop_columns (set_column df c vs) [c] = Inr df"
  by (simp add: drop_columns_def columns_set_column)
     (simp add: set_column_def filter_update_key filter_absent_key columns_def)

lemma apply_smote_result:
  assumes X: "drop_columns df [target_column] = Inr X"
    and y: "get_column df target_column = Inr y"
    and mm: "minority_majority y = Inr (minority_count, majority_count)"
  shows "apply_smote_temporal_safe smote target_column sampling_strategy k_neighbors df =
     (if sampling_strategy \<le> of_nat minority_count / of_nat majority_count then Inr (X, y)
      else smote (if int minority_count \<le> k_neighbors then max 1 (int minority_count - 1)
                  else k_neighbors) sampling_strategy X y)"
  by (simp add: apply_smote_temporal_safe_def X y mm Let_def)

lemma minority_majority_nonempty:
  "minority_majority y = Inr (a, b) \<Longrightarrow> y \<noteq> []"
  by (auto simp: minority_majority_def value_counts_def idxmin_def)

lemma min_count_positive:
  assumes "y \<noteq> []"
  shows "1 \<le> Min (count_list y ` set y)"
proof -
  have "\<forall>n \<in> count_list y ` set y. 1 \<le> n"
    by (auto simp: Suc_le_eq count_list_0_iff intro: gr0I)
  moreover have "Min (count_list y ` set y) \<in> count_list y ` set y"
    using assms by (intro Min_in) simp_all
  ultimately show ?thesis by blast
qed

text \<open>
  Claim C6. Let the smallest count of a class of the training labels, divided by the largest,
  be at least the target ratio. Then \<^verbatim>\<open>apply_smote_temporal_safe\<close>, called by
  \<^verbatim>\<open>_balance_classes\<close> on the training features with their labels, returns these features and
  labels as they are, without calling the oversampler, and \<^verbatim>\<open>_balance_classes\<close> leaves the
  object unchanged. The training features have no column \<^verbatim>\<open>is_alcista\<close> and as many rows as
  there are labels, as \<^verbatim>\<open>partition_data\<close> makes them.
\<close>

theorem already_balanced_unchanged:
  assumes nc: "''is_alcista'' \<notin> set (columns (x_train s))"
    and len: "length (y_train s) = nrows (x_train s)"
    and ne: "y_train s \<noteq> []"
    and ratio: "sampling_strategy \<le>
        of_nat (Min (count_list (y_train s) ` set (y_train s))) /
        of_nat (Max (count_list (y_train s) ` set (y_train s)))"
  shows "apply_smote_temporal_safe smote ''is_alcista'' sampling_strategy k_neighbors
           (set_column (x_train s) ''is_alcista'' (y_train s)) = Inr (x_train s, y_train s) \<and>
         balance_classes smote sampling_strategy k_neighbors s = (s, None)"
proof -
  have a: "apply_smote_temporal_safe smote ''is_alcista'' sampling_strategy k_neighbors
           (set_column (x_train s) ''is_alcista'' (y_train s)) = Inr (x_train s, y_train s)"
    using ratio
    by (simp add: apply_smote_result [OF drop_columns_set_column [OF nc] get_column_set_column
          minority_majority_counts [OF ne]])
  then show ?thesis
    using len by (simp add: balance_classes_def Let_def)
qed

text \<open>Two rows of class 0 and three of class 1 with a target ratio of 0.6.\<close>

theorem already_balanced_unchanged_witness:
  "balance_classes duplicating_smote (3 / 5) 3 nearly_balanced_cleaner =
     (nearly_balanced_cleaner, None)"
proof -
  have "Min (count_list [0, 1, 1, 0, 1 :: int] ` set [0, 1, 1, 0, 1]) = 2"
    and "Max (count_list [0, 1, 1, 0, 1 :: int] ` set [0, 1, 1, 0, 1]) = 3"
    by simp_all
  with already_balanced_unchanged [of nearly_balanced_cleaner "3 / 5" duplicating_smote 3]
  show ?thesis
    by (simp add: nearly_balanced_cleaner_def columns_def)
qed

text \<open>
  Claim C7 as the code has it. The counts of the class analysis are the smallest and the
  largest number of rows of a class, and the smallest is at least 1. When the requested
  \<open>k_neighbors\<close> is at least the minority count and the current ratio is below the target,
  the oversampler is called with \<open>max 1 (minority_count - 1)\<close> neighbours. When the current
  ratio is at least the target, the input is returned unchanged, also for a minority class of
  one row: the code raises no error of its own there. With a minority class of one row, a
  requested \<open>k_neighbors \<ge> 1\<close> and a ratio below the target, the oversampler is called with
  one neighbour, and what it returns or raises is the result.
\<close>

theorem neighbour_clamp:
  assumes X: "drop_columns df [target_column] = Inr X"
    and y: "get_column df target_column = Inr y"
    and mm: "minority_majority y = Inr (minority_count, majority_count)"
  shows "minority_count = Min (count_list y ` set y) \<and>
         majority_count = Max (count_list y ` set y) \<and>
         1 \<le> minority_count \<and>
         (int minority_count \<le> k_neighbors \<and>
          of_nat minority_count / of_nat majority_count < sampling_strategy \<longrightarrow>
            apply_smote_temporal_safe smote target_column sampling_strategy k_neighbors df =
              smote (max 1 (int minority_count - 1)) sampling_strategy X y) \<and>
         (sampling_strategy \<le> of_nat minority_count / of_nat majority_count \<longrightarrow>
            apply_smote_temporal_safe smote target_column sampling_strategy k_neighbors df =
              Inr (X, y)) \<and>
         (minority_count \<le> 1 \<and> 1 \<le> k_neighbors \<and>
          of_nat minority_count / of_nat majority_count < sampling_strategy \<longrightarrow>
            apply_smote_temporal_safe smote target_column sampling_strategy k_neighbors df =
              smote 1 sampling_strategy X y)"
proof -
  have ne: "y \<noteq> []" using mm by (rule minority_majority_nonempty)
  from minority_majority_counts [OF ne] mm
  have c: "minority_count = Min (count_list y ` set y)"
    "majority_count = Max (count_list y ` set y)"
    by simp_all
  have p: "1 \<le> minority_count"
    using min_count_positive [OF ne] c by simp
  show ?thesis
    using c p by (auto simp: apply_smote_result [OF X y mm])
qed

text \<open>Three rows of class 0 and one of class 1, three neighbours requested: one is passed on.\<close>

theorem neighbour_clamp_witness:
  "apply_smote_temporal_safe rejecting_smote ''is_alcista'' (4 / 5) 3
     (set_column (x_train imbalanced_cleaner) ''is_alcista'' (y_train imbalanced_cleaner)) =
   rejecting_smote 1 (4 / 5) (x_train imbalanced_cleaner) (y_train imbalanced_cleaner)"
proof -
  have X: "drop_columns
      (set_column (x_train imbalanced_cleaner) ''is_alcista'' (y_train imbalanced_cleaner))
      [''is_alcista''] = Inr (x_train imbalanced_cleaner)"
    by (intro drop_columns_set_column) (simp add: imbalanced_cleaner_def columns_def)
  have mm: "minority_majority (y_train imbalanced_cleaner) = Inr (1, 3)"
    by code_simp
  from neighbour_clamp [OF X get_column_set_column mm, of 3 "4 / 5" rejecting_smote]
  show ?thesis by simp
qed

text \<open>
  Claim C7 says that a minority class of at most one row makes the balancer raise an
  \<^verbatim>\<open>InsufficientDataError\<close>. The code has no such exception. With one row of each class and
  the default parameters the ratio is 1, and the balancer returns the training split
  unchanged, even with an oversampler that rejects every input.
\<close>

theorem insufficient_data_counterexample:
  "minority_majority (y_train one_minority_cleaner) = Inr (1, 1) \<and>
   balance_classes rejecting_smote (4 / 5) 3 one_minority_cleaner = (one_minority_cleaner, None)"
  by code_simp

text \<open>
  Claim C9. Whatever the oversampler returns or raises, \<^verbatim>\<open>_balance_classes\<close> leaves the
  features and the labels of the test split as they were.
\<close>

theorem balance_leaves_test_split:
  "x_test (fst (balance_classes smote sampling_strategy k_neighbors s)) = x_test s \<and>
   y_test (fst (balance_classes smote sampling_strategy k_neighbors s)) = y_test s"
proof (cases "length (y_train s) = nrows (x_train s)")
  case False
  then show ?thesis
    by (simp add: balance_classes_def)
next
  case True
  show ?thesis
  proof (cases "apply_smote_temporal_safe smote ''is_alcista'' sampling_strategy k_neighbors
                  (set_column (x_train s) ''is_alcista'' (y_train s))")
    case (Inl e)
    with True show ?thesis
      by (simp add: balance_classes_def Let_def)
  next
    case (Inr balanced)
    with True show ?thesis
      by (cases balanced) (simp add: balance_classes_def Let_def)
  qed
qed

lemma imbalanced_balance:
  "balance_classes duplicating_smote (4 / 5) 3 imbalanced_cleaner =
     (imbalanced_cleaner
        \<lparr>x_train := \<lparr>nrows = 8, cols = [(''salida_vela_1'', [10, 20, 30, 40, 10, 20, 30, 40])]\<rparr>,
         y_train := [0, 0, 1, 0, 0, 0, 1, 0]\<rparr>, None)"
  by code_simp

text \<open>An oversampler that doubles the training rows: eight training rows, the test row untouched.\<close>

theorem balance_leaves_test_split_witness:
  "nrows (x_train (fst (balance_classes duplicating_smote (4 / 5) 3 imbalanced_cleaner))) = 8 \<and>
   x_test (fst (balance_classes duplicating_smote (4 / 5) 3 imbalanced_cleaner)) =
     \<lparr>nrows = 1, cols = [(''salida_vela_1'', [50])]\<rparr> \<and>
   y_test (fst (balance_classes duplicating_smote (4 / 5) 3 imbalanced_cleaner)) = [1]"
  using balance_leaves_test_split [of duplicating_smote "4 / 5" 3 imbalanced_cleaner]
  by (simp add: imbalanced_balance) (simp add: imbalanced_cleaner_def)

end
